theory Spec2Isabelle
  imports Main "HOL-Library.Char_ord" "HOL-Library.List_Lexorder"
begin

section \<open>The \<open>version\<close> command of plugin-version\<close>

text \<open>
  The development embeds \<^verbatim>\<open>packages/plugin-version/sources/commands/version.ts\<close>:
  the strategy validation of the command's schema and the body of \<open>execute\<close>.
  The command is orchestration code. Everything it calls lives outside the file:
  the \<open>semver\<close> package, the helpers of \<open>versionUtils\<close>, the version file and the
  command-line runner. Their results are parameters of the model (the record \<open>env\<close>), so
  that every theorem about \<open>execute\<close> holds whatever these collaborators compute.
\<close>

subsection \<open>Data\<close>

text \<open>
  A workspace as far as the command reads it: its identity and \<open>manifest.version\<close>,
  which is \<open>string | null\<close>.
\<close>

record Workspace =
  locator :: string
  manifest_version :: "string option"

text \<open>
  The three \<open>UsageError\<close>s the command raises itself, in source order:
  \<^item> line 99, "Can't bump the version if there wasn't a version to begin with";
  \<^item> line 102, "Can't bump the version (v) if it's not valid semver";
  \<^item> line 116, "Can't bump the version to one that would be lower than the current
    deferred one (v)".
\<close>

datatype usage_error =
    NoVersionToBeginWith
  | NotValidSemver string
  | LowerThanDeferred string

datatype error =
    WorkspaceRequiredError
  | UsageError usage_error
  | Thrown string

text \<open>The calls \<open>execute\<close> makes on its collaborators, in the order it makes them.\<close>

datatype event =
    ResolveVersionFiles
  | OpenVersionFile
  | ReleasesSet Workspace string
  | SaveAll
  | CliRun "string list"

text \<open>
  The collaborators. A call that can throw returns a sum (\<open>Inl\<close> the exception) or, when
  it returns nothing, \<open>Some\<close> exception. \<open>resolveVersionFiles\<close> yields the merged ledger,
  a \<open>Map<Workspace, string>\<close>.
\<close>

record env =
  semver_valid :: "string \<Rightarrow> string option"
  semver_lt :: "string \<Rightarrow> string \<Rightarrow> error + bool"
  suggestStrategy :: "string \<Rightarrow> string \<Rightarrow> string option"
  applyStrategy :: "string option \<Rightarrow> string \<Rightarrow> error + string"
  resolveVersionFiles :: "error + (Workspace \<rightharpoonup> string)"
  openVersionFile :: "error option"
  saveAll :: "error option"
  cli_run :: "string list \<Rightarrow> error option"

text \<open>What \<open>Configuration.find\<close> and \<open>Project.find\<close> hand to the command.\<close>

record project_context =
  preferDeferredVersions :: bool
  workspace :: "Workspace option"

text \<open>The command's options; an optional boolean flag is \<open>undefined\<close> when not passed.\<close>

record VersionCommand =
  strategy :: string
  deferred :: "bool option"
  immediate :: "bool option"
  force :: bool

subsection \<open>The decision enumeration\<close>

text \<open>
  Modelled from the spec: the enumeration \<open>versionUtils.Decision\<close> is declared outside
  the file. Its values are the closed token set of the data model, "major, minor, patch,
  premajor, preminor, prepatch, prerelease, decline plus the sentinel undecided".
\<close>

definition UNDECIDED :: string where
  "UNDECIDED = ''undecided''"

definition DECLINE :: string where
  "DECLINE = ''decline''"

definition Decision_values :: "string list" where
  "Decision_values =
     [UNDECIDED, DECLINE, ''major'', ''minor'', ''patch'',
      ''premajor'', ''preminor'', ''prepatch'', ''prerelease'']"

text \<open>Lines 9-11: every value of the enumeration but \<open>UNDECIDED\<close>.\<close>

definition acceptedStrategies :: "string list" where
  "acceptedStrategies = filter (\<lambda>decision. decision \<noteq> UNDECIDED) Decision_values"

text \<open>Lines 32-34, the test of the schema.\<close>

definition schema_test :: "env \<Rightarrow> string \<Rightarrow> bool" where
  "schema_test e rng =
     (semver_valid e rng \<noteq> None \<or> rng \<in> set acceptedStrategies)"

subsection \<open>The body of \<open>execute\<close>\<close>

text \<open>
  JavaScript truthiness of a \<open>string | null\<close>: \<open>null\<close> and the empty string are falsy.
  The command tests \<open>semver.valid(...)\<close> this way at lines 82 and 101.
\<close>

definition truthy :: "string option \<Rightarrow> bool" where
  "truthy v = (case v of None \<Rightarrow> False | Some s \<Rightarrow> s \<noteq> [])"

text \<open>Lines 72-76. A flag counts when it is \<open>true\<close>.\<close>

definition resolveDeferred :: "bool \<Rightarrow> bool option \<Rightarrow> bool option \<Rightarrow> bool" where
  "resolveDeferred prefer d i =
     (let deferred0 = prefer;
          deferred1 = (if d = Some True then True else deferred0);
          deferred2 = (if i = Some True then False else deferred1)
      in deferred2)"

text \<open>Lines 78-107: the strategy that will be stored, or the usage error.\<close>

definition releaseStrategy :: "env \<Rightarrow> Workspace \<Rightarrow> string \<Rightarrow> error + string" where
  "releaseStrategy e ws strat =
     (let isSemver = semver_valid e strat;
          isDeclined = (strat = DECLINE)
      in if truthy isSemver then
           (case manifest_version ws of
              Some version \<Rightarrow>
                (case suggestStrategy e version strat of
                   Some suggestedStrategy \<Rightarrow> Inr suggestedStrategy
                 | None \<Rightarrow> Inr strat)
            | None \<Rightarrow> Inr strat)
         else
           (let currentVersion = manifest_version ws
            in if \<not> isDeclined then
                 (case currentVersion of
                    None \<Rightarrow> Inl (UsageError NoVersionToBeginWith)
                  | Some cv \<Rightarrow>
                      if \<not> truthy (semver_valid e cv)
                      then Inl (UsageError (NotValidSemver cv))
                      else Inr strat)
               else Inr strat))"

text \<open>
  Lines 110-118, the body of the first \<open>if (!deferred)\<close>: the merged ledger is read and
  the new candidate compared with the stored one.
\<close>

definition regressionGuard :: "env \<Rightarrow> Workspace \<Rightarrow> string \<Rightarrow> error + unit" where
  "regressionGuard e ws rs =
     (case resolveVersionFiles e of
        Inl err \<Rightarrow> Inl err
      | Inr releases \<Rightarrow>
          (case releases ws of
             None \<Rightarrow> Inr ()
           | Some storedVersion \<Rightarrow>
               (case applyStrategy e (manifest_version ws) rs of
                  Inl err \<Rightarrow> Inl err
                | Inr thisVersion \<Rightarrow>
                    (case semver_lt e thisVersion storedVersion of
                       Inl err \<Rightarrow> Inl err
                     | Inr lower \<Rightarrow>
                         if lower then Inl (UsageError (LowerThanDeferred storedVersion))
                         else Inr ()))))"

text \<open>
  Lines 121-127: open the version file, set the release, save, and run
  \<open>version apply\<close> unless deferred. The trace so far is \<open>tr\<close>.
\<close>

definition writeRelease ::
  "env \<Rightarrow> Workspace \<Rightarrow> string \<Rightarrow> bool \<Rightarrow> event list \<Rightarrow> (error + unit) \<times> event list" where
  "writeRelease e ws rs dfr tr =
     (case openVersionFile e of
        Some err \<Rightarrow> (Inl err, tr @ [OpenVersionFile])
      | None \<Rightarrow>
          (case saveAll e of
             Some err \<Rightarrow> (Inl err, tr @ [OpenVersionFile, ReleasesSet ws rs, SaveAll])
           | None \<Rightarrow>
               if \<not> dfr then
                 (case cli_run e [''version'', ''apply''] of
                    Some err \<Rightarrow>
                      (Inl err, tr @ [OpenVersionFile, ReleasesSet ws rs, SaveAll,
                                      CliRun [''version'', ''apply'']])
                  | None \<Rightarrow>
                      (Inr (), tr @ [OpenVersionFile, ReleasesSet ws rs, SaveAll,
                                     CliRun [''version'', ''apply'']]))
               else (Inr (), tr @ [OpenVersionFile, ReleasesSet ws rs, SaveAll])))"

text \<open>Lines 65-128. The result is the outcome and the trace of collaborator calls.\<close>

definition execute :: "env \<Rightarrow> project_context \<Rightarrow> VersionCommand \<Rightarrow> (error + unit) \<times> event list" where
  "execute e ctx cmd =
     (case workspace ctx of
        None \<Rightarrow> (Inl WorkspaceRequiredError, [])
      | Some ws \<Rightarrow>
          (let dfr = resolveDeferred (preferDeferredVersions ctx) (deferred cmd) (immediate cmd)
           in case releaseStrategy e ws (strategy cmd) of
                Inl err \<Rightarrow> (Inl err, [])
              | Inr rs \<Rightarrow>
                  if \<not> dfr then
                    (case regressionGuard e ws rs of
                       Inl err \<Rightarrow> (Inl err, [ResolveVersionFiles])
                     | Inr _ \<Rightarrow> writeRelease e ws rs dfr [ResolveVersionFiles])
                  else writeRelease e ws rs dfr []))"

section \<open>A reference instance of the collaborators\<close>

text \<open>
  The theorems about \<open>execute\<close> are stated for every \<open>env\<close>. To run the command on
  concrete inputs, and to settle what is claimed of \<open>resolveVersionFiles\<close> itself, the
  collaborators are given one instance, written from the design document.
\<close>

subsection \<open>Versions\<close>

text \<open>
  Modelled from the spec: the \<open>semver\<close> package is not part of the file. A Version is
  "a valid semantic version string (MAJOR.MINOR.PATCH[-PRERELEASE])"; the prerelease is a
  dot-separated list of identifiers, numeric or alphanumeric.
\<close>

datatype ident = Numeric nat | Alphanumeric string

datatype version =
  Version (major: nat) (minor: nat) (patch: nat) (prerelease: "ident list")

definition is_digit :: "char \<Rightarrow> bool" where
  "is_digit c = (c \<in> set ''0123456789'')"

definition is_ident_char :: "char \<Rightarrow> bool" where
  "is_ident_char c =
     (c \<in> set ''0123456789abcdefghijklmnopqrstuvwxyzABCDEFGHIJKLMNOPQRSTUVWXYZ-'')"

definition digit_val :: "char \<Rightarrow> nat" where
  "digit_val c = of_char c - 48"

definition digit_char :: "nat \<Rightarrow> char" where
  "digit_char n = char_of (48 + n)"

definition read_nat :: "string \<Rightarrow> nat" where
  "read_nat s = foldl (\<lambda>acc c. 10 * acc + digit_val c) 0 s"

fun show_nat :: "nat \<Rightarrow> string" where
  "show_nat n =
     (if n < 10 then [digit_char n] else show_nat (n div 10) @ [digit_char (n mod 10)])"

text \<open>A numeric identifier: digits only, not empty, no leading zero.\<close>

definition numeric_id :: "string \<Rightarrow> bool" where
  "numeric_id s = (s \<noteq> [] \<and> list_all is_digit s \<and> (s = ''0'' \<or> hd s \<noteq> CHR ''0''))"

fun split_on :: "char \<Rightarrow> string \<Rightarrow> string list" where
  "split_on sep [] = [[]]"
| "split_on sep (x # xs) =
     (if x = sep then [] # split_on sep xs
      else (case split_on sep xs of
              [] \<Rightarrow> [[x]]
            | w # ws \<Rightarrow> (x # w) # ws))"

definition parse_ident :: "string \<Rightarrow> ident option" where
  "parse_ident s =
     (if s = [] \<or> \<not> list_all is_ident_char s then None
      else if list_all is_digit s then
        (if numeric_id s then Some (Numeric (read_nat s)) else None)
      else Some (Alphanumeric s))"

definition parse_version :: "string \<Rightarrow> version option" where
  "parse_version s =
     (let core = takeWhile (\<lambda>c. c \<noteq> CHR ''-'') s;
          rest = dropWhile (\<lambda>c. c \<noteq> CHR ''-'') s
      in case split_on (CHR ''.'') core of
           [a, b, c] \<Rightarrow>
             if numeric_id a \<and> numeric_id b \<and> numeric_id c then
               (case rest of
                  [] \<Rightarrow> Some (Version (read_nat a) (read_nat b) (read_nat c) [])
                | _ # pre \<Rightarrow>
                    map_option (Version (read_nat a) (read_nat b) (read_nat c))
                      (those (map parse_ident (split_on (CHR ''.'') pre))))
             else None
         | _ \<Rightarrow> None)"

fun show_ident :: "ident \<Rightarrow> string" where
  "show_ident (Numeric n) = show_nat n"
| "show_ident (Alphanumeric s) = s"

fun join_dots :: "string list \<Rightarrow> string" where
  "join_dots [] = []"
| "join_dots [w] = w"
| "join_dots (w # ws) = w @ ''.'' @ join_dots ws"

definition show_version :: "version \<Rightarrow> string" where
  "show_version v =
     join_dots [show_nat (major v), show_nat (minor v), show_nat (patch v)]
     @ (if prerelease v = [] then [] else ''-'' @ join_dots (map show_ident (prerelease v)))"

text \<open>
  Semantic-version precedence: major, minor and patch numerically; then a version with a
  prerelease is lower than the same version without; prereleases compare identifier by
  identifier, a numeric identifier below an alphanumeric one, and a proper prefix below
  the longer list.
\<close>

fun ident_less :: "ident \<Rightarrow> ident \<Rightarrow> bool" where
  "ident_less (Numeric a) (Numeric b) = (a < b)"
| "ident_less (Numeric a) (Alphanumeric t) = True"
| "ident_less (Alphanumeric s) (Numeric b) = False"
| "ident_less (Alphanumeric s) (Alphanumeric t) = (s < t)"

fun idents_less :: "ident list \<Rightarrow> ident list \<Rightarrow> bool" where
  "idents_less [] [] = False"
| "idents_less [] (y # ys) = True"
| "idents_less (x # xs) [] = False"
| "idents_less (x # xs) (y # ys) = (ident_less x y \<or> (x = y \<and> idents_less xs ys))"

definition prerelease_less :: "ident list \<Rightarrow> ident list \<Rightarrow> bool" where
  "prerelease_less p q =
     (if p = [] then False else if q = [] then True else idents_less p q)"

definition version_less :: "version \<Rightarrow> version \<Rightarrow> bool" where
  "version_less a b =
     (major a < major b \<or> (major a = major b \<and>
       (minor a < minor b \<or> (minor a = minor b \<and>
         (patch a < patch b \<or> (patch a = patch b \<and>
           prerelease_less (prerelease a) (prerelease b)))))))"

text \<open>
  \<open>semver.valid\<close> returns the version string, or \<open>null\<close> for a string that is not a
  version; \<open>semver.lt\<close> throws on a string that is not a version.
\<close>

definition semver_valid_ref :: "string \<Rightarrow> string option" where
  "semver_valid_ref s = map_option show_version (parse_version s)"

definition semver_lt_ref :: "string \<Rightarrow> string \<Rightarrow> error + bool" where
  "semver_lt_ref a b =
     (case parse_version a of
        None \<Rightarrow> Inl (Thrown ''TypeError'')
      | Some x \<Rightarrow>
          (case parse_version b of
             None \<Rightarrow> Inl (Thrown ''TypeError'')
           | Some y \<Rightarrow> Inr (version_less x y)))"

text \<open>
  Modelled from the spec: the data model lets a Strategy be "an arbitrary valid
  semantic-version range string". Ranges are those of the \<open>semver\<close> package; the
  fragment used here is the single comparator, an optional operator among \<open>^\<close>,
  \<open>~\<close>, \<open>>=\<close>, \<open><=\<close>, \<open>>\<close>, \<open><\<close> and \<open>=\<close> followed by a version. Every
  version is a range; a range with an operator is not a version.
\<close>

definition range_operators :: "string list" where
  "range_operators = [''^'', ''~'', ''>='', ''<='', ''>'', ''<'', ''='', []]"

definition valid_range_ref :: "string \<Rightarrow> bool" where
  "valid_range_ref s =
     list_ex (\<lambda>operator. take (length operator) s = operator
                          \<and> parse_version (drop (length operator) s) \<noteq> None)
       range_operators"

subsection \<open>The strategy engine\<close>

text \<open>
  Modelled from the spec: \<open>versionUtils.applyStrategy\<close> is not part of the file. The
  design document gives its algorithm (4.1): \<open>major\<close>, \<open>minor\<close>, \<open>patch\<close> "increment
  the corresponding component, zero all lower components, strip any prerelease suffix";
  the \<open>pre*\<close> variants are "the same but append prerelease suffix -0"; \<open>prerelease\<close>:
  "if current already carries a prerelease suffix, increment its trailing numeric
  component; otherwise, increment the patch component and append -0"; \<open>decline\<close>:
  "version is unchanged". A prerelease that does not end in a number gets a new
  trailing \<open>0\<close>.
\<close>

definition inc_trailing :: "ident list \<Rightarrow> ident list" where
  "inc_trailing p =
     (case last p of
        Numeric n \<Rightarrow> butlast p @ [Numeric (Suc n)]
      | Alphanumeric s \<Rightarrow> p @ [Numeric 0])"

definition bump :: "string \<Rightarrow> version \<Rightarrow> version" where
  "bump token v =
     (if token = ''major'' then Version (major v + 1) 0 0 []
      else if token = ''minor'' then Version (major v) (minor v + 1) 0 []
      else if token = ''patch'' then Version (major v) (minor v) (patch v + 1) []
      else if token = ''premajor'' then Version (major v + 1) 0 0 [Numeric 0]
      else if token = ''preminor'' then Version (major v) (minor v + 1) 0 [Numeric 0]
      else if token = ''prepatch'' then Version (major v) (minor v) (patch v + 1) [Numeric 0]
      else if token = ''prerelease'' then
        (if prerelease v \<noteq> []
         then Version (major v) (minor v) (patch v) (inc_trailing (prerelease v))
         else Version (major v) (minor v) (patch v + 1) [Numeric 0])
      else v)"

text \<open>
  Modelled from the spec: the contract of \<open>applyStrategy\<close> (4.1). A valid semver
  string "becomes the result (no dependency on current)"; the call "fails with
  InvalidVersionError when strategy is neither a recognized token nor a syntactically
  valid semver string" and "with InvalidBumpError when current is null and strategy is
  an enumerated token".
\<close>

definition applyStrategy_spec :: "version option \<Rightarrow> string \<Rightarrow> error + version" where
  "applyStrategy_spec current strat =
     (case parse_version strat of
        Some target \<Rightarrow> Inr target
      | None \<Rightarrow>
          if strat \<notin> set acceptedStrategies then Inl (Thrown ''InvalidVersionError'')
          else (case current of
                  None \<Rightarrow> Inl (Thrown ''InvalidBumpError'')
                | Some v \<Rightarrow> Inr (bump strat v)))"

text \<open>The same on strings, as the command calls it; an explicit version is kept verbatim.\<close>

definition applyStrategy_ref :: "string option \<Rightarrow> string \<Rightarrow> error + string" where
  "applyStrategy_ref current strat =
     (if parse_version strat \<noteq> None then Inr strat
      else (case current of
              None \<Rightarrow> map_sum id show_version (applyStrategy_spec None strat)
            | Some cur \<Rightarrow>
                (case parse_version cur of
                   None \<Rightarrow> Inl (Thrown ''InvalidVersionError'')
                 | Some v \<Rightarrow> map_sum id show_version (applyStrategy_spec (Some v) strat))))"

text \<open>
  Modelled from the spec: \<open>versionUtils.suggestStrategy\<close> is not part of the file. It
  "inspects whether strategy equals the result of applying each enumerated token to
  current (major, minor, patch, and their pre* variants), and if exactly one token
  produces that exact string, the caller is offered that token's label".
\<close>

definition suggestStrategy_ref :: "string \<Rightarrow> string \<Rightarrow> string option" where
  "suggestStrategy_ref from to =
     (case parse_version from of
        None \<Rightarrow> None
      | Some v \<Rightarrow>
          (case filter (\<lambda>token. show_version (bump token v) = to)
                  [''major'', ''minor'', ''patch'', ''premajor'', ''preminor'', ''prepatch''] of
             [token] \<Rightarrow> Some token
           | _ \<Rightarrow> None))"

subsection \<open>The ledger resolver\<close>

text \<open>
  Modelled from the spec: \<open>versionUtils.resolveVersionFiles\<close> is not part of the file.
  The design document (4.3): "for each PackageId appearing in any record, apply that
  record's Strategy against the package's currently released Version to obtain a
  candidate Version per record. If a package appears in multiple records, the resolver
  keeps, per package, the maximum candidate Version under semantic-version ordering".
  A pending-release record is a mapping from packages to strategies; the project
  enumerates its members and gives each one's current version. A strategy that cannot
  be applied ends the resolution with its error.
\<close>

definition keep_maximum :: "version option \<Rightarrow> version \<Rightarrow> version" where
  "keep_maximum kept c =
     (case kept of
        None \<Rightarrow> c
      | Some old \<Rightarrow> if version_less old c then c else old)"

fun merge_record ::
  "'p list \<Rightarrow> ('p \<Rightarrow> version option) \<Rightarrow> ('p \<rightharpoonup> string) \<Rightarrow> ('p \<rightharpoonup> version)
   \<Rightarrow> error + ('p \<rightharpoonup> version)" where
  "merge_record [] current r ledger = Inr ledger"
| "merge_record (p # ps) current r ledger =
     (case r p of
        None \<Rightarrow> merge_record ps current r ledger
      | Some strat \<Rightarrow>
          (case applyStrategy_spec (current p) strat of
             Inl err \<Rightarrow> Inl err
           | Inr c \<Rightarrow> merge_record ps current r (ledger(p \<mapsto> keep_maximum (ledger p) c))))"

fun merge_records ::
  "'p list \<Rightarrow> ('p \<Rightarrow> version option) \<Rightarrow> ('p \<rightharpoonup> string) list \<Rightarrow> ('p \<rightharpoonup> version)
   \<Rightarrow> error + ('p \<rightharpoonup> version)" where
  "merge_records members current [] ledger = Inr ledger"
| "merge_records members current (r # rs) ledger =
     (case merge_record members current r ledger of
        Inl err \<Rightarrow> Inl err
      | Inr ledger' \<Rightarrow> merge_records members current rs ledger')"

definition resolveVersionFiles_spec ::
  "'p list \<Rightarrow> ('p \<Rightarrow> version option) \<Rightarrow> ('p \<rightharpoonup> string) list \<Rightarrow> error + ('p \<rightharpoonup> version)" where
  "resolveVersionFiles_spec members current records =
     merge_records members current records Map.empty"

text \<open>The candidate versions of a package: one for each record that names it.\<close>

definition candidates ::
  "('p \<Rightarrow> version option) \<Rightarrow> ('p \<rightharpoonup> string) list \<Rightarrow> 'p \<Rightarrow> version set" where
  "candidates current records p =
     {c. \<exists>r \<in> set records. \<exists>strat. r p = Some strat
            \<and> applyStrategy_spec (current p) strat = Inr c}"

text \<open>The candidates one record contributes for a package: at most one.\<close>

definition candidate_of ::
  "('p \<Rightarrow> version option) \<Rightarrow> ('p \<rightharpoonup> string) \<Rightarrow> 'p \<Rightarrow> version set" where
  "candidate_of current r p =
     {c. \<exists>strat. r p = Some strat \<and> applyStrategy_spec (current p) strat = Inr c}"

text \<open>
  \<open>is_greatest S k\<close>: the kept version \<open>k\<close> is the maximum of the candidates \<open>S\<close>
  under semantic-version ordering, and there is none when there is no candidate.
\<close>

definition is_greatest :: "version set \<Rightarrow> version option \<Rightarrow> bool" where
  "is_greatest S k =
     (case k of
        None \<Rightarrow> S = {}
      | Some v \<Rightarrow> v \<in> S \<and> (\<forall>c \<in> S. c = v \<or> version_less c v))"

text \<open>
  The current version of a workspace as the resolver reads it, and the merged version of
  one workspace printed as a string.
\<close>

definition current_version :: "Workspace \<Rightarrow> version option" where
  "current_version ws =
     (case manifest_version ws of None \<Rightarrow> None | Some s \<Rightarrow> parse_version s)"

definition show_ledger ::
  "error + (Workspace \<rightharpoonup> version) \<Rightarrow> Workspace \<Rightarrow> error + string option" where
  "show_ledger res ws =
     (case res of Inl err \<Rightarrow> Inl err | Inr ledger \<Rightarrow> Inr (map_option show_version (ledger ws)))"

subsection \<open>The instance\<close>

text \<open>
  The collaborators of the command with the merged ledger given, the version file
  opening and saving without error, and \<open>version apply\<close> running without error.
\<close>

definition reference_env :: "(Workspace \<rightharpoonup> string) \<Rightarrow> env" where
  "reference_env ledger =
     \<lparr> semver_valid = semver_valid_ref,
       semver_lt = semver_lt_ref,
       suggestStrategy = suggestStrategy_ref,
       applyStrategy = applyStrategy_ref,
       resolveVersionFiles = Inr ledger,
       openVersionFile = None,
       saveAll = None,
       cli_run = (\<lambda>args. None) \<rparr>"

subsection \<open>Example inputs\<close>

text \<open>
  A workspace \<open>P\<close> with a given manifest version, the project context that finds it,
  and an invocation of the command with its strategy and its two flags.
\<close>

definition package :: "string option \<Rightarrow> Workspace" where
  "package v = \<lparr> locator = ''P'', manifest_version = v \<rparr>"

definition found :: "bool \<Rightarrow> Workspace \<Rightarrow> project_context" where
  "found prefer ws = \<lparr> preferDeferredVersions = prefer, workspace = Some ws \<rparr>"

definition invoke :: "string \<Rightarrow> bool option \<Rightarrow> bool option \<Rightarrow> VersionCommand" where
  "invoke strat d i = \<lparr> strategy = strat, deferred = d, immediate = i, force = False \<rparr>"

section \<open>Properties of the command\<close>

subsection \<open>The reference instance on the inputs used below\<close>

lemma valid_major: "semver_valid_ref ''major'' = None"
  by code_simp

lemma valid_decline: "semver_valid_ref ''decline'' = None"
  by code_simp

lemma valid_1_9_0: "semver_valid_ref ''1.9.0'' = Some ''1.9.0''"
  by code_simp

lemma suggest_1_9_0: "suggestStrategy_ref ''1.0.0'' ''1.9.0'' = None"
  by code_simp

lemma apply_1_9_0: "applyStrategy_ref (Some ''1.0.0'') ''1.9.0'' = Inr ''1.9.0''"
  by code_simp

lemma lt_1_9_0: "semver_lt_ref ''1.9.0'' ''2.0.0'' = Inr True"
  by code_simp

lemma valid_2_0_0: "semver_valid_ref ''2.0.0'' = Some ''2.0.0''"
  by code_simp

lemma valid_1_0_5: "semver_valid_ref ''1.0.5'' = Some ''1.0.5''"
  by code_simp

lemma valid_1_2_3: "semver_valid_ref ''1.2.3'' = Some ''1.2.3''"
  by code_simp

lemma suggest_2_0_0: "suggestStrategy_ref ''1.0.0'' ''2.0.0'' = Some ''major''"
  by code_simp

lemma suggest_1_0_5: "suggestStrategy_ref ''1.0.0'' ''1.0.5'' = None"
  by code_simp

lemma valid_undecided: "semver_valid_ref ''undecided'' = None"
  by code_simp

lemma valid_not_a_version: "semver_valid_ref ''1.0'' = None"
  by code_simp

lemma valid_caret: "semver_valid_ref ''^1.2.3'' = None"
  by code_simp

lemma valid_range_caret: "valid_range_ref ''^1.2.3''"
  by code_simp

lemma valid_patch: "semver_valid_ref ''patch'' = None"
  by code_simp

lemma valid_next: "semver_valid_ref ''next'' = None"
  by code_simp

lemma valid_1_0_0: "semver_valid_ref ''1.0.0'' = Some ''1.0.0''"
  by code_simp

lemma apply_patch: "applyStrategy_ref (Some ''1.0.0'') ''patch'' = Inr ''1.0.1''"
  by code_simp

lemma lt_1_0_1: "semver_lt_ref ''1.0.1'' ''3.0.0'' = Inr True"
  by code_simp

lemma release_1_9_0:
  "releaseStrategy (reference_env l) (package (Some ''1.0.0'')) ''1.9.0'' = Inr ''1.9.0''"
  by (simp add: releaseStrategy_def reference_env_def package_def truthy_def
      valid_1_9_0 suggest_1_9_0)

subsection \<open>The deferred flag\<close>

text \<open>
  C9. The resolved deferred flag is the \<open>preferDeferredVersions\<close> setting by default,
  \<open>true\<close> under \<open>--deferred\<close>, \<open>false\<close> under \<open>--immediate\<close>; when both flags are
  passed \<open>--immediate\<close> wins.
\<close>

theorem resolveDeferred_flags:
  "(d \<noteq> Some True \<and> i \<noteq> Some True \<longrightarrow> resolveDeferred prefer d i = prefer)
   \<and> (d = Some True \<and> i \<noteq> Some True \<longrightarrow> resolveDeferred prefer d i = True)
   \<and> (i = Some True \<longrightarrow> resolveDeferred prefer d i = False)
   \<and> resolveDeferred prefer (Some True) (Some True) = False"
  by (simp add: resolveDeferred_def)

theorem resolveDeferred_flags_witness:
  "resolveDeferred True None None = True
   \<and> resolveDeferred False None (Some False) = False
   \<and> resolveDeferred False (Some True) None = True
   \<and> resolveDeferred True None (Some True) = False
   \<and> resolveDeferred True (Some True) (Some True) = False"
  using resolveDeferred_flags [of None None True]
        resolveDeferred_flags [of None "Some False" False]
        resolveDeferred_flags [of "Some True" None False]
        resolveDeferred_flags [of None "Some True" True]
        resolveDeferred_flags [of "Some True" "Some True" True]
  by simp

subsection \<open>The regression guard\<close>

text \<open>
  C1, as the code has it. When the resolved deferred flag is false, the merged ledger
  holds a version for the workspace, and the version computed by \<open>applyStrategy\<close> from
  the manifest version and the resolved strategy is lower under \<open>semver.lt\<close>, the
  command fails with the usage error of line 116. The only collaborator called is
  \<open>resolveVersionFiles\<close>: no version file is opened, set or saved.
\<close>

theorem regression_rejected_unless_deferred:
  assumes "workspace ctx = Some ws"
    and "\<not> resolveDeferred (preferDeferredVersions ctx) (deferred cmd) (immediate cmd)"
    and "releaseStrategy e ws (strategy cmd) = Inr rs"
    and "resolveVersionFiles e = Inr releases"
    and "releases ws = Some storedVersion"
    and "applyStrategy e (manifest_version ws) rs = Inr thisVersion"
    and "semver_lt e thisVersion storedVersion = Inr True"
  shows "execute e ctx cmd
         = (Inl (UsageError (LowerThanDeferred storedVersion)), [ResolveVersionFiles])"
  using assms by (simp add: execute_def regressionGuard_def)

theorem regression_rejected_unless_deferred_witness:
  "workspace (found False (package (Some ''1.0.0''))) = Some (package (Some ''1.0.0''))
   \<and> \<not> resolveDeferred (preferDeferredVersions (found False (package (Some ''1.0.0''))))
          (deferred (invoke ''1.9.0'' None None)) (immediate (invoke ''1.9.0'' None None))
   \<and> releaseStrategy (reference_env [package (Some ''1.0.0'') \<mapsto> ''2.0.0''])
        (package (Some ''1.0.0'')) (strategy (invoke ''1.9.0'' None None)) = Inr ''1.9.0''
   \<and> applyStrategy (reference_env [package (Some ''1.0.0'') \<mapsto> ''2.0.0''])
        (manifest_version (package (Some ''1.0.0''))) ''1.9.0'' = Inr ''1.9.0''
   \<and> semver_lt (reference_env [package (Some ''1.0.0'') \<mapsto> ''2.0.0'']) ''1.9.0'' ''2.0.0''
        = Inr True
   \<and> execute (reference_env [package (Some ''1.0.0'') \<mapsto> ''2.0.0''])
        (found False (package (Some ''1.0.0''))) (invoke ''1.9.0'' None None)
      = (Inl (UsageError (LowerThanDeferred ''2.0.0'')), [ResolveVersionFiles])"
proof -
  let ?P = "package (Some ''1.0.0'')"
  let ?e = "reference_env [?P \<mapsto> ''2.0.0'']"
  let ?ctx = "found False ?P"
  let ?cmd = "invoke ''1.9.0'' None None"
  have h1: "workspace ?ctx = Some ?P"
    by (simp add: found_def)
  have h2: "\<not> resolveDeferred (preferDeferredVersions ?ctx) (deferred ?cmd) (immediate ?cmd)"
    by (simp add: resolveDeferred_def found_def invoke_def)
  have h3: "releaseStrategy ?e ?P (strategy ?cmd) = Inr ''1.9.0''"
    by (simp add: invoke_def release_1_9_0)
  have h4: "resolveVersionFiles ?e = Inr [?P \<mapsto> ''2.0.0'']"
    by (simp add: reference_env_def)
  have h5: "[?P \<mapsto> ''2.0.0''] ?P = Some ''2.0.0''"
    by simp
  have h6: "applyStrategy ?e (manifest_version ?P) ''1.9.0'' = Inr ''1.9.0''"
    by (simp add: reference_env_def package_def apply_1_9_0)
  have h7: "semver_lt ?e ''1.9.0'' ''2.0.0'' = Inr True"
    by (simp add: reference_env_def lt_1_9_0)
  from regression_rejected_unless_deferred [OF h1 h2 h3 h4 h5 h6 h7] h1 h2 h3 h6 h7
  show ?thesis by blast
qed

text \<open>
  C1 as stated fails for a deferred invocation. The merged ledger holds \<open>2.0.0\<close> for
  \<open>P\<close>, the new decision computes to \<open>1.9.0\<close>, which is lower, and with \<open>--deferred\<close>
  the command succeeds: the record is set and saved.
\<close>

theorem regression_accepted_when_deferred_counterexample:
  "resolveVersionFiles (reference_env [package (Some ''1.0.0'') \<mapsto> ''2.0.0''])
     = Inr [package (Some ''1.0.0'') \<mapsto> ''2.0.0'']
   \<and> applyStrategy (reference_env [package (Some ''1.0.0'') \<mapsto> ''2.0.0''])
        (manifest_version (package (Some ''1.0.0''))) ''1.9.0'' = Inr ''1.9.0''
   \<and> semver_lt (reference_env [package (Some ''1.0.0'') \<mapsto> ''2.0.0'']) ''1.9.0'' ''2.0.0''
        = Inr True
   \<and> execute (reference_env [package (Some ''1.0.0'') \<mapsto> ''2.0.0''])
        (found False (package (Some ''1.0.0''))) (invoke ''1.9.0'' (Some True) None)
      = (Inr (), [OpenVersionFile, ReleasesSet (package (Some ''1.0.0'')) ''1.9.0'', SaveAll])"
  by (simp add: execute_def writeRelease_def resolveDeferred_def found_def invoke_def
      release_1_9_0 apply_1_9_0 lt_1_9_0)
   (simp add: reference_env_def package_def apply_1_9_0 lt_1_9_0)

subsection \<open>Bumping without a usable current version\<close>

text \<open>
  C3, as the code has it. When the manifest version is \<open>null\<close> and the strategy is
  neither a version that \<open>semver.valid\<close> accepts nor \<open>decline\<close> (so: one of the other
  enumerated tokens), the command fails with the usage error of line 99 before it calls
  any collaborator: no ledger is read and no version file is opened or written.
\<close>

theorem null_version_bump_rejected:
  assumes "workspace ctx = Some ws"
    and "manifest_version ws = None"
    and "\<not> truthy (semver_valid e (strategy cmd))"
    and "strategy cmd \<noteq> DECLINE"
  shows "execute e ctx cmd = (Inl (UsageError NoVersionToBeginWith), [])"
  using assms by (simp add: execute_def releaseStrategy_def)

theorem null_version_bump_rejected_witness:
  "workspace (found False (package None)) = Some (package None)
   \<and> manifest_version (package None) = None
   \<and> \<not> truthy (semver_valid (reference_env Map.empty) (strategy (invoke ''major'' None None)))
   \<and> strategy (invoke ''major'' None None) \<noteq> DECLINE
   \<and> execute (reference_env Map.empty) (found False (package None)) (invoke ''major'' None None)
      = (Inl (UsageError NoVersionToBeginWith), [])"
proof -
  have h1: "workspace (found False (package None)) = Some (package None)"
    by (simp add: found_def)
  have h2: "manifest_version (package None) = None"
    by (simp add: package_def)
  have h3: "\<not> truthy (semver_valid (reference_env Map.empty)
                       (strategy (invoke ''major'' None None)))"
    by (simp add: truthy_def reference_env_def invoke_def valid_major)
  have h4: "strategy (invoke ''major'' None None) \<noteq> DECLINE"
    by (simp add: invoke_def DECLINE_def)
  from null_version_bump_rejected [OF h1 h2 h3 h4] h1 h2 h3 h4
  show ?thesis by blast
qed

text \<open>
  C3 as stated fails for the enumerated token \<open>decline\<close>: with no manifest version the
  command raises nothing and, deferred, sets and saves the record.
\<close>

theorem decline_without_version_counterexample:
  "manifest_version (package None) = None
   \<and> ''decline'' \<in> set acceptedStrategies
   \<and> semver_valid (reference_env Map.empty) ''decline'' = None
   \<and> execute (reference_env Map.empty) (found False (package None))
        (invoke ''decline'' (Some True) None)
      = (Inr (), [OpenVersionFile, ReleasesSet (package None) ''decline'', SaveAll])"
  by (simp add: execute_def writeRelease_def releaseStrategy_def resolveDeferred_def
      found_def invoke_def package_def reference_env_def truthy_def valid_decline
      DECLINE_def acceptedStrategies_def Decision_values_def UNDECIDED_def)

subsection \<open>The strategy that is stored\<close>

text \<open>
  C4. When the strategy argument is a version that \<open>semver.valid\<close> accepts (it
  returns the version, a non-empty string) and the manifest version is not \<open>null\<close>,
  the strategy resolved for the record is the token \<open>suggestStrategy\<close> returns for
  the manifest version and the argument, and the argument itself when it returns
  \<open>null\<close>. Whatever \<open>releases.set\<close> the command performs stores that strategy for
  the workspace, and every successful run performs it.
\<close>

theorem explicit_version_strategy_stored:
  assumes "workspace ctx = Some ws"
    and "manifest_version ws = Some current"
    and "truthy (semver_valid e (strategy cmd))"
    and "stored = (case suggestStrategy e current (strategy cmd) of
                     Some token \<Rightarrow> token
                   | None \<Rightarrow> strategy cmd)"
  shows "releaseStrategy e ws (strategy cmd) = Inr stored
         \<and> (\<forall>w s. ReleasesSet w s \<in> set (snd (execute e ctx cmd)) \<longrightarrow> w = ws \<and> s = stored)
         \<and> (fst (execute e ctx cmd) = Inr () \<longrightarrow>
              ReleasesSet ws stored \<in> set (snd (execute e ctx cmd)))"
proof -
  have rs: "releaseStrategy e ws (strategy cmd) = Inr stored"
    using assms by (simp add: releaseStrategy_def split: option.splits)
  have only: "\<forall>w s. ReleasesSet w s \<in> set (snd (execute e ctx cmd)) \<longrightarrow> w = ws \<and> s = stored"
    using assms(1) rs
    by (auto simp: execute_def writeRelease_def Let_def split: option.splits sum.splits if_splits)
  have reached: "fst (execute e ctx cmd) = Inr () \<longrightarrow>
              ReleasesSet ws stored \<in> set (snd (execute e ctx cmd))"
    using assms(1) rs
    by (auto simp: execute_def writeRelease_def Let_def split: option.splits sum.splits if_splits)
  from rs only reached show ?thesis by blast
qed

theorem explicit_version_strategy_stored_witness:
  "workspace (found True (package (Some ''1.0.0''))) = Some (package (Some ''1.0.0''))
   \<and> manifest_version (package (Some ''1.0.0'')) = Some ''1.0.0''
   \<and> truthy (semver_valid (reference_env Map.empty) (strategy (invoke ''2.0.0'' None None)))
   \<and> truthy (semver_valid (reference_env Map.empty) (strategy (invoke ''1.0.5'' None None)))
   \<and> suggestStrategy (reference_env Map.empty) ''1.0.0'' ''2.0.0'' = Some ''major''
   \<and> suggestStrategy (reference_env Map.empty) ''1.0.0'' ''1.0.5'' = None
   \<and> releaseStrategy (reference_env Map.empty) (package (Some ''1.0.0''))
        (strategy (invoke ''2.0.0'' None None)) = Inr ''major''
   \<and> releaseStrategy (reference_env Map.empty) (package (Some ''1.0.0''))
        (strategy (invoke ''1.0.5'' None None)) = Inr ''1.0.5''
   \<and> fst (execute (reference_env Map.empty) (found True (package (Some ''1.0.0'')))
           (invoke ''2.0.0'' None None)) = Inr ()
   \<and> ReleasesSet (package (Some ''1.0.0'')) ''major''
       \<in> set (snd (execute (reference_env Map.empty) (found True (package (Some ''1.0.0'')))
                     (invoke ''2.0.0'' None None)))"
proof -
  let ?P = "package (Some ''1.0.0'')"
  let ?e = "reference_env Map.empty"
  let ?ctx = "found True ?P"
  have h1: "workspace ?ctx = Some ?P"
    by (simp add: found_def)
  have h2: "manifest_version ?P = Some ''1.0.0''"
    by (simp add: package_def)
  have h3: "truthy (semver_valid ?e (strategy (invoke ''2.0.0'' None None)))"
    by (simp add: truthy_def reference_env_def invoke_def valid_2_0_0)
  have h3': "truthy (semver_valid ?e (strategy (invoke ''1.0.5'' None None)))"
    by (simp add: truthy_def reference_env_def invoke_def valid_1_0_5)
  have s: "suggestStrategy ?e ''1.0.0'' ''2.0.0'' = Some ''major''"
    by (simp add: reference_env_def suggest_2_0_0)
  have s': "suggestStrategy ?e ''1.0.0'' ''1.0.5'' = None"
    by (simp add: reference_env_def suggest_1_0_5)
  have h4: "''major'' = (case suggestStrategy ?e ''1.0.0'' (strategy (invoke ''2.0.0'' None None)) of
                     Some token \<Rightarrow> token
                   | None \<Rightarrow> strategy (invoke ''2.0.0'' None None))"
    by (simp add: invoke_def s)
  have h4': "''1.0.5'' = (case suggestStrategy ?e ''1.0.0'' (strategy (invoke ''1.0.5'' None None)) of
                     Some token \<Rightarrow> token
                   | None \<Rightarrow> strategy (invoke ''1.0.5'' None None))"
    by (simp add: invoke_def s')
  have ok: "fst (execute ?e ?ctx (invoke ''2.0.0'' None None)) = Inr ()"
    by (simp add: execute_def writeRelease_def resolveDeferred_def releaseStrategy_def
        truthy_def found_def invoke_def package_def reference_env_def valid_2_0_0 suggest_2_0_0)
  from explicit_version_strategy_stored [OF h1 h2 h3 h4]
       explicit_version_strategy_stored [OF h1 h2 h3' h4'] h1 h2 h3 h3' s s' ok
  show ?thesis by blast
qed

lemma regressionGuard_suggest:
  "regressionGuard (e\<lparr>suggestStrategy := f\<rparr>) ws rs = regressionGuard e ws rs"
  by (simp add: regressionGuard_def split: sum.splits option.splits)

lemma writeRelease_suggest:
  "writeRelease (e\<lparr>suggestStrategy := f\<rparr>) ws rs dfr tr = writeRelease e ws rs dfr tr"
  by (simp add: writeRelease_def split: option.splits)

text \<open>
  C5. When the strategy argument is a version that \<open>semver.valid\<close> accepts and the
  manifest version is \<open>null\<close>, strategy resolution succeeds with the argument itself,
  and that is what the command stores. \<open>suggestStrategy\<close> is not consulted: replacing
  it by any other function \<open>f\<close> leaves the run unchanged.
\<close>

theorem explicit_version_without_current:
  assumes "workspace ctx = Some ws"
    and "manifest_version ws = None"
    and "truthy (semver_valid e (strategy cmd))"
  shows "releaseStrategy e ws (strategy cmd) = Inr (strategy cmd)
         \<and> execute (e\<lparr>suggestStrategy := f\<rparr>) ctx cmd = execute e ctx cmd
         \<and> (\<forall>w s. ReleasesSet w s \<in> set (snd (execute e ctx cmd)) \<longrightarrow>
               w = ws \<and> s = strategy cmd)
         \<and> (fst (execute e ctx cmd) = Inr () \<longrightarrow>
              ReleasesSet ws (strategy cmd) \<in> set (snd (execute e ctx cmd)))"
proof -
  have rs: "releaseStrategy e' ws (strategy cmd) = Inr (strategy cmd)"
    if "semver_valid e' = semver_valid e" for e'
    using assms that by (simp add: releaseStrategy_def)
  have indep: "execute (e\<lparr>suggestStrategy := f\<rparr>) ctx cmd = execute e ctx cmd"
    using assms(1) rs [of e] rs [of "e\<lparr>suggestStrategy := f\<rparr>"]
    by (simp add: execute_def Let_def regressionGuard_suggest writeRelease_suggest
        split: sum.splits)
  have only: "\<forall>w s. ReleasesSet w s \<in> set (snd (execute e ctx cmd)) \<longrightarrow>
               w = ws \<and> s = strategy cmd"
    using assms(1) rs [of e]
    by (auto simp: execute_def writeRelease_def Let_def split: option.splits sum.splits if_splits)
  have reached: "fst (execute e ctx cmd) = Inr () \<longrightarrow>
              ReleasesSet ws (strategy cmd) \<in> set (snd (execute e ctx cmd))"
    using assms(1) rs [of e]
    by (auto simp: execute_def writeRelease_def Let_def split: option.splits sum.splits if_splits)
  from rs [of e] indep only reached show ?thesis by blast
qed

theorem explicit_version_without_current_witness:
  "workspace (found False (package None)) = Some (package None)
   \<and> manifest_version (package None) = None
   \<and> truthy (semver_valid (reference_env Map.empty) (strategy (invoke ''1.2.3'' None None)))
   \<and> releaseStrategy (reference_env Map.empty) (package None)
        (strategy (invoke ''1.2.3'' None None)) = Inr ''1.2.3''
   \<and> execute (reference_env Map.empty) (found False (package None)) (invoke ''1.2.3'' None None)
      = (Inr (), [ResolveVersionFiles, OpenVersionFile, ReleasesSet (package None) ''1.2.3'',
                  SaveAll, CliRun [''version'', ''apply'']])
   \<and> execute ((reference_env Map.empty)\<lparr>suggestStrategy := (\<lambda>from to. Some ''major'')\<rparr>)
        (found False (package None)) (invoke ''1.2.3'' None None)
      = execute (reference_env Map.empty) (found False (package None))
          (invoke ''1.2.3'' None None)"
proof -
  let ?P = "package None"
  let ?e = "reference_env Map.empty"
  let ?ctx = "found False ?P"
  let ?cmd = "invoke ''1.2.3'' None None"
  have h1: "workspace ?ctx = Some ?P"
    by (simp add: found_def)
  have h2: "manifest_version ?P = None"
    by (simp add: package_def)
  have h3: "truthy (semver_valid ?e (strategy ?cmd))"
    by (simp add: truthy_def reference_env_def invoke_def valid_1_2_3)
  have run: "execute ?e ?ctx ?cmd
      = (Inr (), [ResolveVersionFiles, OpenVersionFile, ReleasesSet ?P ''1.2.3'',
                  SaveAll, CliRun [''version'', ''apply'']])"
    by (simp add: execute_def writeRelease_def regressionGuard_def resolveDeferred_def
        releaseStrategy_def truthy_def found_def invoke_def package_def reference_env_def
        valid_1_2_3)
  have s: "strategy ?cmd = ''1.2.3''"
    by (simp add: invoke_def)
  from explicit_version_without_current [OF h1 h2 h3, of "\<lambda>from to. Some ''major''"]
       h1 h2 h3 run s
  show ?thesis by simp
qed

subsection \<open>The schema of the strategy argument\<close>

text \<open>
  C6, as the code has it. The schema accepts a string exactly when it is one of the
  enumerated tokens \<open>major\<close>, \<open>minor\<close>, \<open>patch\<close>, \<open>premajor\<close>, \<open>preminor\<close>,
  \<open>prepatch\<close>, \<open>prerelease\<close>, \<open>decline\<close> (the sentinel \<open>undecided\<close> is filtered
  out) or a string that \<open>semver.valid\<close> accepts, that is a single semantic version;
  every other string is rejected.
\<close>

theorem schema_accepts_tokens_or_versions:
  "schema_test e s \<longleftrightarrow>
     s \<in> {''major'', ''minor'', ''patch'', ''premajor'', ''preminor'', ''prepatch'',
           ''prerelease'', ''decline''}
     \<or> semver_valid e s \<noteq> None"
  by (auto simp: schema_test_def acceptedStrategies_def Decision_values_def
      UNDECIDED_def DECLINE_def)

theorem schema_accepts_tokens_or_versions_witness:
  "schema_test (reference_env Map.empty) ''major''
   \<and> schema_test (reference_env Map.empty) ''decline''
   \<and> schema_test (reference_env Map.empty) ''1.2.3''
   \<and> \<not> schema_test (reference_env Map.empty) ''undecided''
   \<and> \<not> schema_test (reference_env Map.empty) ''1.0''
   \<and> \<not> schema_test (reference_env Map.empty) ''^1.2.3''"
  using schema_accepts_tokens_or_versions [of "reference_env Map.empty" "''major''"]
        schema_accepts_tokens_or_versions [of "reference_env Map.empty" "''decline''"]
        schema_accepts_tokens_or_versions [of "reference_env Map.empty" "''1.2.3''"]
        schema_accepts_tokens_or_versions [of "reference_env Map.empty" "''undecided''"]
        schema_accepts_tokens_or_versions [of "reference_env Map.empty" "''1.0''"]
        schema_accepts_tokens_or_versions [of "reference_env Map.empty" "''^1.2.3''"]
  by (simp add: reference_env_def valid_1_2_3 valid_undecided valid_not_a_version
      valid_caret)

text \<open>
  C6 as stated fails for a range that is not a version. \<open>^1.2.3\<close> is a valid
  semantic-version range and is no enumerated token, \<open>semver.valid\<close> returns \<open>null\<close>
  for it, and the schema rejects it.
\<close>

theorem schema_rejects_range_counterexample:
  "valid_range_ref ''^1.2.3''
   \<and> semver_valid (reference_env Map.empty) ''^1.2.3'' = None
   \<and> \<not> schema_test (reference_env Map.empty) ''^1.2.3''"
  by (simp add: schema_test_def reference_env_def valid_caret valid_range_caret
      acceptedStrategies_def Decision_values_def UNDECIDED_def DECLINE_def)

subsection \<open>Saving before applying\<close>

lemma release_patch:
  "releaseStrategy (reference_env l) (package (Some ''1.0.0'')) ''patch'' = Inr ''patch''"
  by (simp add: releaseStrategy_def reference_env_def package_def truthy_def DECLINE_def
      valid_patch valid_1_0_0)

text \<open>
  C7. In every successful run, \<open>version apply\<close> is run exactly when the resolved
  deferred flag is false, and \<open>saveAll\<close> was called and did not throw. In every run,
  successful or not, a \<open>cli.run\<close> is the \<open>version apply\<close> one, it is the last call
  of the trace, the call just before it is \<open>saveAll\<close>, and \<open>saveAll\<close> did not throw.
\<close>

theorem apply_only_after_save:
  assumes "execute e ctx cmd = (res, tr)"
  shows "(res = Inr () \<longrightarrow>
            (CliRun [''version'', ''apply''] \<in> set tr
               \<longleftrightarrow> \<not> resolveDeferred (preferDeferredVersions ctx) (deferred cmd) (immediate cmd))
            \<and> saveAll e = None \<and> SaveAll \<in> set tr)
         \<and> (\<forall>args. CliRun args \<in> set tr \<longrightarrow>
               args = [''version'', ''apply''] \<and> saveAll e = None
               \<and> (\<exists>before. tr = before @ [SaveAll, CliRun args]
                            \<and> (\<forall>a. CliRun a \<notin> set before)))"
  using assms
  by (auto simp: execute_def writeRelease_def Let_def
      split: option.splits sum.splits if_splits)

theorem apply_only_after_save_witness:
  "execute (reference_env Map.empty) (found False (package (Some ''1.0.0'')))
     (invoke ''patch'' None None)
   = (Inr (), [ResolveVersionFiles, OpenVersionFile,
               ReleasesSet (package (Some ''1.0.0'')) ''patch'', SaveAll,
               CliRun [''version'', ''apply'']])
   \<and> \<not> resolveDeferred (preferDeferredVersions (found False (package (Some ''1.0.0''))))
          (deferred (invoke ''patch'' None None)) (immediate (invoke ''patch'' None None))
   \<and> saveAll (reference_env Map.empty) = None
   \<and> execute (reference_env Map.empty) (found False (package (Some ''1.0.0'')))
       (invoke ''patch'' (Some True) None)
     = (Inr (), [OpenVersionFile, ReleasesSet (package (Some ''1.0.0'')) ''patch'', SaveAll])
   \<and> resolveDeferred (preferDeferredVersions (found False (package (Some ''1.0.0''))))
        (deferred (invoke ''patch'' (Some True) None))
        (immediate (invoke ''patch'' (Some True) None))
   \<and> execute ((reference_env Map.empty)\<lparr>saveAll := Some (Thrown ''PersistenceError'')\<rparr>)
       (found False (package (Some ''1.0.0''))) (invoke ''patch'' None None)
     = (Inl (Thrown ''PersistenceError''),
        [ResolveVersionFiles, OpenVersionFile,
         ReleasesSet (package (Some ''1.0.0'')) ''patch'', SaveAll])"
proof -
  let ?P = "package (Some ''1.0.0'')"
  let ?e = "reference_env Map.empty"
  let ?ctx = "found False ?P"
  have r1: "execute ?e ?ctx (invoke ''patch'' None None)
   = (Inr (), [ResolveVersionFiles, OpenVersionFile, ReleasesSet ?P ''patch'', SaveAll,
               CliRun [''version'', ''apply'']])"
    by (simp add: execute_def writeRelease_def regressionGuard_def resolveDeferred_def
        found_def invoke_def release_patch)
       (simp add: reference_env_def writeRelease_def regressionGuard_def)
  have r2: "execute ?e ?ctx (invoke ''patch'' (Some True) None)
     = (Inr (), [OpenVersionFile, ReleasesSet ?P ''patch'', SaveAll])"
    by (simp add: execute_def writeRelease_def regressionGuard_def resolveDeferred_def
        found_def invoke_def release_patch)
       (simp add: reference_env_def writeRelease_def regressionGuard_def)
  have r3: "execute (?e\<lparr>saveAll := Some (Thrown ''PersistenceError'')\<rparr>) ?ctx
              (invoke ''patch'' None None)
     = (Inl (Thrown ''PersistenceError''),
        [ResolveVersionFiles, OpenVersionFile, ReleasesSet ?P ''patch'', SaveAll])"
    by (simp add: execute_def writeRelease_def regressionGuard_def resolveDeferred_def
        releaseStrategy_def truthy_def DECLINE_def found_def invoke_def package_def
        reference_env_def valid_patch valid_1_0_0)
  from apply_only_after_save [OF r1] apply_only_after_save [OF r2]
       apply_only_after_save [OF r3] r1 r2 r3
  show ?thesis by simp
qed

subsection \<open>Deferred invocations\<close>

lemma releaseStrategy_ledger:
  "releaseStrategy (e\<lparr>resolveVersionFiles := ledger, applyStrategy := ap, semver_lt := lt\<rparr>)
     ws strat
   = releaseStrategy e ws strat"
  by (simp add: releaseStrategy_def Let_def split: option.splits)

text \<open>
  C8. When the deferred flag resolves to true (\<open>--deferred\<close> or the
  \<open>preferDeferredVersions\<close> setting, without \<open>--immediate\<close>) and strategy resolution
  succeeds, the command never calls \<open>resolveVersionFiles\<close>; its run is the same whatever the merged
  ledger, \<open>applyStrategy\<close> and \<open>semver.lt\<close> are; and when opening and saving the
  version file do not throw, it sets the resolved strategy, saves and succeeds. So a
  decision whose candidate is lower than the pending merged version is accepted.
\<close>

theorem deferred_skips_ledger:
  assumes "workspace ctx = Some ws"
    and "deferred cmd = Some True \<or> preferDeferredVersions ctx"
    and "immediate cmd \<noteq> Some True"
    and "releaseStrategy e ws (strategy cmd) = Inr rs"
  shows "ResolveVersionFiles \<notin> set (snd (execute e ctx cmd))
         \<and> execute (e\<lparr>resolveVersionFiles := ledger, applyStrategy := ap, semver_lt := lt\<rparr>)
               ctx cmd
             = execute e ctx cmd
         \<and> (openVersionFile e = None \<and> saveAll e = None \<longrightarrow>
              execute e ctx cmd = (Inr (), [OpenVersionFile, ReleasesSet ws rs, SaveAll]))"
proof -
  let ?e' = "e\<lparr>resolveVersionFiles := ledger, applyStrategy := ap, semver_lt := lt\<rparr>"
  have rs': "releaseStrategy ?e' ws (strategy cmd) = Inr rs"
    using assms(4) by (simp add: releaseStrategy_ledger)
  have wr: "writeRelease ?e' ws rs True [] = writeRelease e ws rs True []"
    by (simp add: writeRelease_def split: option.splits)
  have dfr: "resolveDeferred (preferDeferredVersions ctx) (deferred cmd) (immediate cmd)"
    using assms(2,3) by (auto simp: resolveDeferred_def)
  have ex: "execute e ctx cmd = writeRelease e ws rs True []"
    using assms(1,4) dfr by (simp add: execute_def)
  have ex': "execute ?e' ctx cmd = writeRelease ?e' ws rs True []"
    using assms(1) dfr rs' by (simp add: execute_def)
  have no: "ResolveVersionFiles \<notin> set (snd (writeRelease e ws rs True []))"
    by (simp add: writeRelease_def split: option.splits)
  have ok: "openVersionFile e = None \<and> saveAll e = None \<longrightarrow>
              writeRelease e ws rs True [] = (Inr (), [OpenVersionFile, ReleasesSet ws rs, SaveAll])"
    by (simp add: writeRelease_def)
  from ex ex' wr no ok show ?thesis by simp
qed

theorem deferred_skips_ledger_witness:
  "workspace (found True (package (Some ''1.0.0''))) = Some (package (Some ''1.0.0''))
   \<and> preferDeferredVersions (found True (package (Some ''1.0.0'')))
   \<and> immediate (invoke ''patch'' None None) \<noteq> Some True
   \<and> releaseStrategy (reference_env [package (Some ''1.0.0'') \<mapsto> ''3.0.0''])
        (package (Some ''1.0.0'')) (strategy (invoke ''patch'' None None)) = Inr ''patch''
   \<and> applyStrategy (reference_env [package (Some ''1.0.0'') \<mapsto> ''3.0.0''])
        (manifest_version (package (Some ''1.0.0''))) ''patch'' = Inr ''1.0.1''
   \<and> semver_lt (reference_env [package (Some ''1.0.0'') \<mapsto> ''3.0.0'']) ''1.0.1'' ''3.0.0''
        = Inr True
   \<and> execute (reference_env [package (Some ''1.0.0'') \<mapsto> ''3.0.0''])
        (found True (package (Some ''1.0.0''))) (invoke ''patch'' None None)
      = (Inr (), [OpenVersionFile, ReleasesSet (package (Some ''1.0.0'')) ''patch'', SaveAll])"
proof -
  let ?P = "package (Some ''1.0.0'')"
  let ?e = "reference_env [?P \<mapsto> ''3.0.0'']"
  let ?ctx = "found True ?P"
  let ?cmd = "invoke ''patch'' None None"
  have h1: "workspace ?ctx = Some ?P"
    by (simp add: found_def)
  have p: "preferDeferredVersions ?ctx"
    by (simp add: found_def)
  then have h2: "deferred ?cmd = Some True \<or> preferDeferredVersions ?ctx"
    by simp
  have h2': "immediate ?cmd \<noteq> Some True"
    by (simp add: invoke_def)
  have h3: "releaseStrategy ?e ?P (strategy ?cmd) = Inr ''patch''"
    by (simp add: invoke_def release_patch)
  have a: "applyStrategy ?e (manifest_version ?P) ''patch'' = Inr ''1.0.1''"
    by (simp add: reference_env_def package_def apply_patch)
  have b: "semver_lt ?e ''1.0.1'' ''3.0.0'' = Inr True"
    by (simp add: reference_env_def lt_1_0_1)
  have c: "openVersionFile ?e = None \<and> saveAll ?e = None"
    by (simp add: reference_env_def)
  from deferred_skips_ledger [OF h1 h2 h2' h3] h1 p h2' h3 a b c
  show ?thesis by simp
qed

subsection \<open>A current version that is not semver\<close>

text \<open>
  C10. When the strategy is neither a version that \<open>semver.valid\<close> accepts nor
  \<open>decline\<close> (so: an enumerated token other than \<open>decline\<close>) and the manifest version
  is not \<open>null\<close> but \<open>semver.valid\<close> rejects it, the command fails with the usage
  error of line 102, which carries that version, before it calls any collaborator.
  The strategy \<open>decline\<close> passes strategy resolution whatever the manifest version is,
  \<open>null\<close> and invalid included.
\<close>

theorem invalid_current_version_rejected:
  "(workspace ctx = Some ws \<and> manifest_version ws = Some cv
      \<and> \<not> truthy (semver_valid e cv)
      \<and> \<not> truthy (semver_valid e (strategy cmd)) \<and> strategy cmd \<noteq> DECLINE
    \<longrightarrow> execute e ctx cmd = (Inl (UsageError (NotValidSemver cv)), []))
   \<and> (\<not> truthy (semver_valid e DECLINE) \<longrightarrow> releaseStrategy e ws' DECLINE = Inr DECLINE)"
  by (simp add: execute_def releaseStrategy_def)

theorem invalid_current_version_rejected_witness:
  "workspace (found False (package (Some ''next''))) = Some (package (Some ''next''))
   \<and> manifest_version (package (Some ''next'')) = Some ''next''
   \<and> \<not> truthy (semver_valid (reference_env Map.empty) ''next'')
   \<and> \<not> truthy (semver_valid (reference_env Map.empty) (strategy (invoke ''patch'' None None)))
   \<and> strategy (invoke ''patch'' None None) \<noteq> DECLINE
   \<and> execute (reference_env Map.empty) (found False (package (Some ''next'')))
        (invoke ''patch'' None None)
      = (Inl (UsageError (NotValidSemver ''next'')), [])
   \<and> \<not> truthy (semver_valid (reference_env Map.empty) DECLINE)
   \<and> releaseStrategy (reference_env Map.empty) (package (Some ''next'')) DECLINE = Inr DECLINE
   \<and> releaseStrategy (reference_env Map.empty) (package None) DECLINE = Inr DECLINE"
proof -
  let ?P = "package (Some ''next'')"
  let ?e = "reference_env Map.empty"
  let ?ctx = "found False ?P"
  let ?cmd = "invoke ''patch'' None None"
  have h1: "workspace ?ctx = Some ?P"
    by (simp add: found_def)
  have h2: "manifest_version ?P = Some ''next''"
    by (simp add: package_def)
  have h3: "\<not> truthy (semver_valid ?e ''next'')"
    by (simp add: truthy_def reference_env_def valid_next)
  have h4: "\<not> truthy (semver_valid ?e (strategy ?cmd))"
    by (simp add: truthy_def reference_env_def invoke_def valid_patch)
  have h5: "strategy ?cmd \<noteq> DECLINE"
    by (simp add: invoke_def DECLINE_def)
  have h6: "\<not> truthy (semver_valid ?e DECLINE)"
    by (simp add: truthy_def reference_env_def DECLINE_def valid_decline)
  from invalid_current_version_rejected [of ?ctx ?P "''next''" ?e ?cmd ?P]
       invalid_current_version_rejected [of ?ctx ?P "''next''" ?e ?cmd "package None"]
       h1 h2 h3 h4 h5 h6
  show ?thesis by simp
qed

section \<open>Properties of the ledger resolver\<close>

subsection \<open>Semantic-version ordering is a strict total order\<close>

lemma ident_less_irrefl: "\<not> ident_less x x"
  by (cases x) simp_all

lemma ident_less_trans: "ident_less x y \<Longrightarrow> ident_less y z \<Longrightarrow> ident_less x z"
  by (cases x; cases y; cases z) auto

lemma ident_less_total: "x \<noteq> y \<Longrightarrow> ident_less x y \<or> ident_less y x"
  by (cases x; cases y) auto

lemma idents_less_irrefl: "\<not> idents_less xs xs"
  by (induction xs) (simp_all add: ident_less_irrefl)

lemma idents_less_trans:
  "idents_less xs ys \<Longrightarrow> idents_less ys zs \<Longrightarrow> idents_less xs zs"
proof (induction xs ys arbitrary: zs rule: idents_less.induct)
  case (4 x xs y ys)
  then show ?case
    by (cases zs) (auto intro: ident_less_trans)
qed (auto elim: idents_less.elims)

lemma idents_less_total: "xs \<noteq> ys \<Longrightarrow> idents_less xs ys \<or> idents_less ys xs"
proof (induction xs ys rule: idents_less.induct)
  case (4 x xs y ys)
  then show ?case
    using ident_less_total [of x y] by auto
qed simp_all

lemma prerelease_less_trans:
  "prerelease_less p q \<Longrightarrow> prerelease_less q r \<Longrightarrow> prerelease_less p r"
  unfolding prerelease_less_def
  by (cases "p = []"; cases "q = []"; cases "r = []") (simp_all add: idents_less_trans [of p q r])

lemma prerelease_less_total: "p \<noteq> q \<Longrightarrow> prerelease_less p q \<or> prerelease_less q p"
  unfolding prerelease_less_def
  using idents_less_total [of p q] by (cases "p = []"; cases "q = []") simp_all

lemma version_less_irrefl: "\<not> version_less a a"
  by (simp add: version_less_def prerelease_less_def idents_less_irrefl)

lemma version_less_trans:
  assumes "version_less a b" and "version_less b c"
  shows "version_less a c"
proof -
  note pt = prerelease_less_trans [of "prerelease a" "prerelease b" "prerelease c"]
  from assms pt show ?thesis
    unfolding version_less_def by (elim disjE conjE) simp_all
qed

lemma version_less_total:
  assumes "a \<noteq> b"
  shows "version_less a b \<or> version_less b a"
proof -
  from assms have "major a \<noteq> major b \<or> minor a \<noteq> minor b \<or> patch a \<noteq> patch b
             \<or> prerelease a \<noteq> prerelease b"
    by (auto simp: version.expand)
  with prerelease_less_total [of "prerelease a" "prerelease b"] show ?thesis
    unfolding version_less_def by (elim disjE) (simp_all add: nat_neq_iff, auto)
qed

subsection \<open>The kept version is the greatest candidate\<close>

lemma is_greatest_step:
  assumes "is_greatest S k"
  shows "is_greatest (insert c S) (Some (keep_maximum k c))"
proof (cases k)
  case None
  with assms show ?thesis
    by (simp add: is_greatest_def keep_maximum_def)
next
  case (Some old)
  with assms have old: "old \<in> S" "\<forall>d \<in> S. d = old \<or> version_less d old"
    by (simp_all add: is_greatest_def)
  show ?thesis
  proof (cases "version_less old c")
    case True
    with old Some show ?thesis
      by (auto simp: is_greatest_def keep_maximum_def intro: version_less_trans)
  next
    case False
    with old Some show ?thesis
      using version_less_total [of c old]
      by (auto simp: is_greatest_def keep_maximum_def)
  qed
qed

lemma merge_record_greatest:
  assumes "merge_record ps current r ledger = Inr ledger'"
    and "\<forall>p. is_greatest (S p) (ledger p)"
  shows "\<forall>p. is_greatest (S p \<union> (if p \<in> set ps then candidate_of current r p else {}))
               (ledger' p)"
  using assms
proof (induction ps arbitrary: ledger S)
  case Nil
  then show ?case by simp
next
  case (Cons q ps)
  show ?case
  proof (cases "r q")
    case None
    then have none: "candidate_of current r q = {}"
      by (simp add: candidate_of_def)
    from Cons.prems None have "merge_record ps current r ledger = Inr ledger'"
      by simp
    from Cons.IH [OF this Cons.prems(2)]
    have "\<forall>p. is_greatest (S p \<union> (if p \<in> set ps then candidate_of current r p else {}))
               (ledger' p)" .
    moreover have "S p \<union> (if p \<in> set ps then candidate_of current r p else {})
          = S p \<union> (if p \<in> set (q # ps) then candidate_of current r p else {})" for p
      using none by auto
    ultimately show ?thesis by simp
  next
    case (Some strat)
    with Cons.prems obtain c where c: "applyStrategy_spec (current q) strat = Inr c"
      and rest: "merge_record ps current r (ledger(q \<mapsto> keep_maximum (ledger q) c)) = Inr ledger'"
      by (auto split: sum.splits)
    from Some c have cand: "candidate_of current r q = {c}"
      by (auto simp: candidate_of_def)
    let ?S = "\<lambda>p. if p = q then insert c (S p) else S p"
    have "\<forall>p. is_greatest (?S p) ((ledger(q \<mapsto> keep_maximum (ledger q) c)) p)"
      using Cons.prems(2) by (simp add: is_greatest_step)
    from Cons.IH [OF rest this]
    have "\<forall>p. is_greatest (?S p \<union> (if p \<in> set ps then candidate_of current r p else {}))
               (ledger' p)" .
    moreover have "?S p \<union> (if p \<in> set ps then candidate_of current r p else {})
          = S p \<union> (if p \<in> set (q # ps) then candidate_of current r p else {})" for p
      using cand by auto
    ultimately show ?thesis by simp
  qed
qed

lemma merge_records_greatest:
  assumes "merge_records members current rs ledger = Inr ledger'"
    and "\<forall>p. is_greatest (S p) (ledger p)"
  shows "\<forall>p. is_greatest
               (S p \<union> (if p \<in> set members then (\<Union>r \<in> set rs. candidate_of current r p) else {}))
               (ledger' p)"
  using assms
proof (induction rs arbitrary: ledger S)
  case Nil
  then show ?case by simp
next
  case (Cons r rs)
  from Cons.prems(1) obtain mid where mid: "merge_record members current r ledger = Inr mid"
    and rest: "merge_records members current rs mid = Inr ledger'"
    by (auto split: sum.splits)
  let ?S = "\<lambda>p. S p \<union> (if p \<in> set members then candidate_of current r p else {})"
  from merge_record_greatest [OF mid Cons.prems(2)]
  have "\<forall>p. is_greatest (?S p) (mid p)" .
  from Cons.IH [OF rest this]
  have "\<forall>p. is_greatest
          (?S p \<union> (if p \<in> set members then (\<Union>r \<in> set rs. candidate_of current r p) else {}))
          (ledger' p)" .
  moreover have "?S p \<union> (if p \<in> set members then (\<Union>r \<in> set rs. candidate_of current r p) else {})
        = S p \<union> (if p \<in> set members then (\<Union>r \<in> set (r # rs). candidate_of current r p) else {})"
    for p by auto
  ultimately show ?case by simp
qed

lemma candidates_Union:
  "candidates current records p = (\<Union>r \<in> set records. candidate_of current r p)"
  by (auto simp: candidates_def candidate_of_def)

lemma resolve_greatest:
  assumes "resolveVersionFiles_spec members current records = Inr ledger"
    and "p \<in> set members"
  shows "is_greatest (candidates current records p) (ledger p)"
proof -
  have "\<forall>p. is_greatest ({} :: version set) ((Map.empty :: 'a \<rightharpoonup> version) p)"
    by (simp add: is_greatest_def)
  from merge_records_greatest [OF assms(1) [unfolded resolveVersionFiles_spec_def] this]
  have "is_greatest ({} \<union> (if p \<in> set members
                             then (\<Union>r \<in> set records. candidate_of current r p) else {}))
          (ledger p)" by (rule spec)
  with assms(2) show ?thesis by (simp add: candidates_Union)
qed

lemma merge_record_returns:
  assumes "\<forall>q \<in> set ps. \<forall>s. r q = Some s \<longrightarrow> (\<exists>c. applyStrategy_spec (current q) s = Inr c)"
  shows "\<exists>ledger'. merge_record ps current r ledger = Inr ledger'"
  using assms
proof (induction ps arbitrary: ledger)
  case Nil
  then show ?case by simp
next
  case (Cons q ps)
  then show ?case
    by (cases "r q") (auto split: sum.splits)
qed

lemma merge_records_returns:
  assumes "\<forall>r \<in> set rs. \<forall>q \<in> set members. \<forall>s. r q = Some s \<longrightarrow>
             (\<exists>c. applyStrategy_spec (current q) s = Inr c)"
  shows "\<exists>ledger'. merge_records members current rs ledger = Inr ledger'"
  using assms
proof (induction rs arbitrary: ledger)
  case Nil
  then show ?case by simp
next
  case (Cons r rs)
  then obtain mid where "merge_record members current r ledger = Inr mid"
    using merge_record_returns [of members r current ledger] by auto
  with Cons show ?case by simp
qed

lemma apply_spec_minor:
  "applyStrategy_spec (current_version (package (Some ''1.0.0''))) ''minor''
   = Inr (Version 1 1 0 [])"
  by code_simp

lemma apply_spec_patch:
  "applyStrategy_spec (current_version (package (Some ''1.0.0''))) ''patch''
   = Inr (Version 1 0 1 [])"
  by code_simp

lemma show_1_1_0: "show_version (Version 1 1 0 []) = ''1.1.0''"
  by code_simp

lemma patch_below_minor: "\<not> version_less (Version 1 1 0 []) (Version 1 0 1 [])"
  by (simp add: version_less_def)

text \<open>
  C2. For every package of the project, when every strategy recorded for the project's
  packages can be applied, \<open>resolveVersionFiles\<close> returns a ledger; the ledger holds
  no version for a package that no record names, and otherwise holds one of the
  package's per-record candidates, and every other candidate of the package is lower
  under semantic-version ordering: the maximum, whatever the order of the records. In
  particular two records declaring \<open>minor\<close> and \<open>patch\<close> for a package at \<open>1.0.0\<close>
  merge to \<open>1.1.0\<close>, in either order.
\<close>

theorem resolveVersionFiles_keeps_maximum:
  "(p \<in> set members
    \<and> (\<forall>r \<in> set records. \<forall>q \<in> set members. \<forall>s. r q = Some s \<longrightarrow>
           (\<exists>c. applyStrategy_spec (current q) s = Inr c))
    \<longrightarrow> (\<exists>ledger. resolveVersionFiles_spec members current records = Inr ledger
           \<and> (candidates current records p = {} \<longrightarrow> ledger p = None)
           \<and> (candidates current records p \<noteq> {} \<longrightarrow>
                (\<exists>v. ledger p = Some v \<and> v \<in> candidates current records p
                     \<and> (\<forall>c \<in> candidates current records p. c = v \<or> version_less c v)))))
   \<and> show_ledger
         (resolveVersionFiles_spec [package (Some ''1.0.0'')] current_version
            [[package (Some ''1.0.0'') \<mapsto> ''minor''], [package (Some ''1.0.0'') \<mapsto> ''patch'']])
         (package (Some ''1.0.0''))
       = Inr (Some ''1.1.0'')
   \<and> show_ledger
         (resolveVersionFiles_spec [package (Some ''1.0.0'')] current_version
            [[package (Some ''1.0.0'') \<mapsto> ''patch''], [package (Some ''1.0.0'') \<mapsto> ''minor'']])
         (package (Some ''1.0.0''))
       = Inr (Some ''1.1.0'')"
proof (intro conjI impI)
  assume a: "p \<in> set members
    \<and> (\<forall>r \<in> set records. \<forall>q \<in> set members. \<forall>s. r q = Some s \<longrightarrow>
           (\<exists>c. applyStrategy_spec (current q) s = Inr c))"
  then obtain ledger where l: "resolveVersionFiles_spec members current records = Inr ledger"
    using merge_records_returns [of records members current Map.empty]
    by (auto simp: resolveVersionFiles_spec_def)
  from a have "p \<in> set members" by simp
  from resolve_greatest [OF l this]
  have "is_greatest (candidates current records p) (ledger p)" .
  then have "(candidates current records p = {} \<longrightarrow> ledger p = None)
           \<and> (candidates current records p \<noteq> {} \<longrightarrow>
                (\<exists>v. ledger p = Some v \<and> v \<in> candidates current records p
                     \<and> (\<forall>c \<in> candidates current records p. c = v \<or> version_less c v)))"
    by (cases "ledger p") (auto simp: is_greatest_def)
  with l show "\<exists>ledger. resolveVersionFiles_spec members current records = Inr ledger
           \<and> (candidates current records p = {} \<longrightarrow> ledger p = None)
           \<and> (candidates current records p \<noteq> {} \<longrightarrow>
                (\<exists>v. ledger p = Some v \<and> v \<in> candidates current records p
                     \<and> (\<forall>c \<in> candidates current records p. c = v \<or> version_less c v)))"
    by blast
next
  show "show_ledger
         (resolveVersionFiles_spec [package (Some ''1.0.0'')] current_version
            [[package (Some ''1.0.0'') \<mapsto> ''minor''], [package (Some ''1.0.0'') \<mapsto> ''patch'']])
         (package (Some ''1.0.0''))
       = Inr (Some ''1.1.0'')"
    by code_simp
next
  show "show_ledger
         (resolveVersionFiles_spec [package (Some ''1.0.0'')] current_version
            [[package (Some ''1.0.0'') \<mapsto> ''patch''], [package (Some ''1.0.0'') \<mapsto> ''minor'']])
         (package (Some ''1.0.0''))
       = Inr (Some ''1.1.0'')"
    by code_simp
qed

theorem resolveVersionFiles_keeps_maximum_witness:
  "package (Some ''1.0.0'') \<in> set [package (Some ''1.0.0'')]
   \<and> applyStrategy_spec (current_version (package (Some ''1.0.0''))) ''minor''
       = Inr (Version 1 1 0 [])
   \<and> applyStrategy_spec (current_version (package (Some ''1.0.0''))) ''patch''
       = Inr (Version 1 0 1 [])
   \<and> candidates current_version
         [[package (Some ''1.0.0'') \<mapsto> ''minor''], [package (Some ''1.0.0'') \<mapsto> ''patch'']]
         (package (Some ''1.0.0''))
       = {Version 1 1 0 [], Version 1 0 1 []}
   \<and> show_ledger
         (resolveVersionFiles_spec [package (Some ''1.0.0'')] current_version
            [[package (Some ''1.0.0'') \<mapsto> ''minor''], [package (Some ''1.0.0'') \<mapsto> ''patch'']])
         (package (Some ''1.0.0''))
       = Inr (Some ''1.1.0'')"
proof -
  let ?P = "package (Some ''1.0.0'')"
  let ?recs = "[[?P \<mapsto> ''minor''], [?P \<mapsto> ''patch'']]"
  have h1: "?P \<in> set [?P]"
    by simp
  have h2: "\<forall>r \<in> set ?recs. \<forall>q \<in> set [?P]. \<forall>s. r q = Some s \<longrightarrow>
              (\<exists>c. applyStrategy_spec (current_version q) s = Inr c)"
    by (simp add: apply_spec_minor apply_spec_patch)
  have cs: "candidates current_version ?recs ?P = {Version 1 1 0 [], Version 1 0 1 []}"
    by (auto simp: candidates_def apply_spec_minor apply_spec_patch)
  from resolveVersionFiles_keeps_maximum [of ?P "[?P]" ?recs current_version] h1 h2
  obtain ledger where l: "resolveVersionFiles_spec [?P] current_version ?recs = Inr ledger"
    and g: "candidates current_version ?recs ?P \<noteq> {} \<longrightarrow>
              (\<exists>v. ledger ?P = Some v \<and> v \<in> candidates current_version ?recs ?P
                   \<and> (\<forall>c \<in> candidates current_version ?recs ?P. c = v \<or> version_less c v))"
    by blast
  from g cs obtain v where v: "ledger ?P = Some v" "v = Version 1 1 0 [] \<or> v = Version 1 0 1 []"
    and top: "Version 1 1 0 [] = v \<or> version_less (Version 1 1 0 []) v"
    by auto
  from v(2) top have "v = Version 1 1 0 []"
    using patch_below_minor by auto
  with l v(1) have "show_ledger (resolveVersionFiles_spec [?P] current_version ?recs) ?P
       = Inr (Some (show_version (Version 1 1 0 [])))"
    by (simp add: show_ledger_def)
  then have "show_ledger (resolveVersionFiles_spec [?P] current_version ?recs) ?P
       = Inr (Some ''1.1.0'')"
    by (simp only: show_1_1_0)
  with h1 cs apply_spec_minor apply_spec_patch show ?thesis
    by blast
qed

end
